theory Spec2Isabelle
  imports Complex_Main "HOL-Library.Multiset"
begin

section \<open>Data model\<close>

text \<open>
  The application (\<^verbatim>\<open>app.py\<close>) loads a table of movies and a matrix of pairwise similarity
  scores, looks up the rows most similar to a chosen title, and fetches one poster URL per
  recommended movie from a metadata service.

  A row of the \<^verbatim>\<open>movies\<close> table is a record of the two columns the program reads. The
  similarity matrix is a list of rows. Its entries are floating-point numbers that the
  program only compares with each other, so they are modelled as reals (not-a-number values
  are outside the model).
\<close>

record movie =
  title :: string
  movie_id :: int

type_synonym catalog = "movie list"

type_synonym matrix = "real list list"

text \<open>The exceptions that the modelled code can raise; all are subclasses of \<^verbatim>\<open>Exception\<close>.\<close>

datatype exn =
    IndexError
  | FileNotFoundError
  | UnpicklingError
  | ClientError
  | TimeoutError
  | ContentTypeError
  | AttributeError
  | ValueError

section \<open>Recommender\<close>

text \<open>\<^verbatim>\<open>movie_titles = movies['title'].to_numpy()\<close>\<close>

definition movie_titles :: "catalog \<Rightarrow> string list" where
  "movie_titles movies = map title movies"

text \<open>\<^verbatim>\<open>np.where(movie_titles == t)[0]\<close>: the positions holding \<open>t\<close>, in ascending order.\<close>

definition np_where_eq :: "string list \<Rightarrow> string \<Rightarrow> nat list" where
  "np_where_eq titles t = filter (\<lambda>i. titles ! i = t) [0..<length titles]"

text \<open>\<^verbatim>\<open>a[0]\<close> on a one-dimensional array: the first element, or \<^verbatim>\<open>IndexError\<close> when empty.\<close>

definition item0 :: "'a list \<Rightarrow> exn + 'a" where
  "item0 xs = (case xs of [] \<Rightarrow> Inl IndexError | x # _ \<Rightarrow> Inr x)"

text \<open>\<^verbatim>\<open>cosine_sim[idx]\<close> for a non-negative \<open>idx\<close>: the row, or \<^verbatim>\<open>IndexError\<close> out of range.\<close>

definition row_at :: "matrix \<Rightarrow> nat \<Rightarrow> exn + real list" where
  "row_at cosine_sim idx =
     (if idx < length cosine_sim then Inr (cosine_sim ! idx) else Inl IndexError)"

text \<open>
  \<^verbatim>\<open>np.argsort(sim_scores)\<close>: the indices of the row, ordered by ascending score. The
  default sorting routine of NumPy is not stable: in which order it leaves indices of equal
  score is its own affair, and differs between routines. That choice is a parameter of the
  model. A tie-break \<open>tb\<close> gives every index of a row a rank; indices of equal score come
  out by ascending rank (and by ascending index where the ranks are equal too). The
  indices are first ordered by rank, and that list is then sorted stably by score. Every
  order of the indices that sorts the row is the result for some tie-break (lemma
  \<open>argsort_complete\<close> below), so a statement proved for every \<open>tb\<close> holds whatever the
  sorting routine does with ties.
\<close>

type_synonym tie_break = "real list \<Rightarrow> nat \<Rightarrow> nat"

definition argsort :: "tie_break \<Rightarrow> real list \<Rightarrow> nat list" where
  "argsort tb sim_scores =
     sort_key (\<lambda>i. sim_scores ! i) (sort_key (tb sim_scores) [0..<length sim_scores])"

text \<open>\<^verbatim>\<open>np.argsort(sim_scores)[::-1][1:21]\<close>\<close>

definition top_indices :: "tie_break \<Rightarrow> real list \<Rightarrow> nat list" where
  "top_indices tb sim_scores = take 20 (drop 1 (rev (argsort tb sim_scores)))"

text \<open>
  \<^verbatim>\<open>movies.iloc[top_indices][['title', 'movie_id']]\<close>: the rows at the given positions, in
  the order given; pandas raises \<^verbatim>\<open>IndexError\<close> when a position is out of bounds.
\<close>

definition iloc :: "catalog \<Rightarrow> nat list \<Rightarrow> exn + movie list" where
  "iloc movies idxs =
     (if list_all (\<lambda>i. i < length movies) idxs
      then Inr (map (\<lambda>i. movies ! i) idxs)
      else Inl IndexError)"

text \<open>The body of the \<^verbatim>\<open>try\<close> block of \<^verbatim>\<open>get_recommendations\<close>.\<close>

definition get_recommendations_try ::
  "tie_break \<Rightarrow> catalog \<Rightarrow> matrix \<Rightarrow> string \<Rightarrow> exn + movie list" where
  "get_recommendations_try tb movies cosine_sim t =
     (case item0 (np_where_eq (movie_titles movies) t) of
        Inl e \<Rightarrow> Inl e
      | Inr idx \<Rightarrow>
          (case row_at cosine_sim idx of
             Inl e \<Rightarrow> Inl e
           | Inr sim_scores \<Rightarrow> iloc movies (top_indices tb sim_scores)))"

text \<open>
  \<^verbatim>\<open>get_recommendations\<close>: the \<^verbatim>\<open>try\<close> block with its handler
  \<^verbatim>\<open>except IndexError: return pd.DataFrame(columns=['title', 'movie_id'])\<close>.
  Any other exception would propagate.
\<close>

definition get_recommendations ::
  "tie_break \<Rightarrow> catalog \<Rightarrow> matrix \<Rightarrow> string \<Rightarrow> exn + movie list" where
  "get_recommendations tb movies cosine_sim t =
     (case get_recommendations_try tb movies cosine_sim t of
        Inl IndexError \<Rightarrow> Inr []
      | Inl e \<Rightarrow> Inl e
      | Inr df \<Rightarrow> Inr df)"

text \<open>
  \<^verbatim>\<open>@st.cache_data\<close>: the decorator keeps, per argument value, the value that the function
  returned, and answers a repeated call from that store. The process state is the loaded
  table and matrix together with this store.
\<close>

record app =
  g_movies :: catalog
  g_cosine_sim :: matrix
  g_cache :: "string \<rightharpoonup> movie list"

definition get_recommendations_cached ::
  "tie_break \<Rightarrow> app \<Rightarrow> string \<Rightarrow> (exn + movie list) \<times> app" where
  "get_recommendations_cached tb st t =
     (case g_cache st t of
        Some df \<Rightarrow> (Inr df, st)
      | None \<Rightarrow>
          (case get_recommendations tb (g_movies st) (g_cosine_sim st) t of
             Inl e \<Rightarrow> (Inl e, st)
           | Inr df \<Rightarrow> (Inr df, st\<lparr>g_cache := (g_cache st)(t \<mapsto> df)\<rparr>)))"

section \<open>Catalog store\<close>

text \<open>
  \<^verbatim>\<open>with open('movie_data.pkl', 'rb') as file: movies, cosine_sim = pickle.load(file)\<close>.
  The file is described by what reading it gives: it is absent, or its bytes do not
  unpickle, or they unpickle to a value that does not unpack into two parts, or they
  unpickle to a pair of a table and a matrix.
\<close>

datatype artifact = Missing | Corrupt | NotAPair | Bundle catalog matrix

fun load :: "artifact \<Rightarrow> exn + (catalog \<times> matrix)" where
  "load Missing = Inl FileNotFoundError"
| "load Corrupt = Inl UnpicklingError"
| "load NotAPair = Inl ValueError"
| "load (Bundle movies cosine_sim) = Inr (movies, cosine_sim)"

text \<open>The process state after the module-level statements have run, when they all succeed.\<close>

definition startup :: "artifact \<Rightarrow> exn + app" where
  "startup a =
     (case load a of
        Inl e \<Rightarrow> Inl e
      | Inr (movies, cosine_sim) \<Rightarrow>
          Inr \<lparr>g_movies = movies, g_cosine_sim = cosine_sim, g_cache = Map.empty\<rparr>)"

text \<open>The invariant that the data model asks of a table and its matrix: \<open>N\<close> rows of \<open>N\<close> scores.\<close>

definition dims_agree :: "catalog \<Rightarrow> matrix \<Rightarrow> bool" where
  "dims_agree movies cosine_sim \<longleftrightarrow>
     length cosine_sim = length movies \<and>
     list_all (\<lambda>row. length row = length movies) cosine_sim"

section \<open>Poster fetcher\<close>

text \<open>
  What one \<^verbatim>\<open>session.get(url, timeout=5)\<close> can meet: a response with a status code and a
  body, a failed connection, or no response within the timeout. A body is either not JSON,
  or JSON that is not an object, or a JSON object. The field \<^verbatim>\<open>poster_path\<close> of the
  metadata service is a string or null, and field values are modelled at that type.
\<close>

datatype jval = JNull | JStr string

datatype json = NonObject | Object "string \<rightharpoonup> jval"

datatype body = NotJson | Json json

datatype outcome = Response int body | ConnectionFailed | TimedOut

text \<open>The metadata service, as seen by the session: it maps a request URL to an outcome.\<close>

type_synonym session = "string \<Rightarrow> outcome"

text \<open>Decimal rendering of an integer, as an f-string does it.\<close>

definition digit_char :: "nat \<Rightarrow> char" where
  "digit_char d = ''0123456789'' ! d"

function str_nat :: "nat \<Rightarrow> string" where
  "str_nat n = (if n < 10 then [digit_char n] else str_nat (n div 10) @ [digit_char (n mod 10)])"
  by pat_completeness auto
termination
  by (relation "measure (\<lambda>n. n)") auto

declare str_nat.simps [simp del]

definition str_int :: "int \<Rightarrow> string" where
  "str_int i = (if i < 0 then CHR ''-'' # str_nat (nat (- i)) else str_nat (nat i))"

text \<open>\<^verbatim>\<open>url = f"https://api.themoviedb.org/3/movie/{movie_id}?api_key={api_key}"\<close>\<close>

definition request_url :: "int \<Rightarrow> string \<Rightarrow> string" where
  "request_url mid api_key =
     ''https://api.themoviedb.org/3/movie/'' @ str_int mid @ ''?api_key='' @ api_key"

definition placeholder :: string where
  "placeholder = ''https://via.placeholder.com/150''"

definition image_base :: string where
  "image_base = ''https://image.tmdb.org/t/p''"

text \<open>\<^verbatim>\<open>session.get(url, timeout=5)\<close>: the response, or the exception aiohttp raises.\<close>

definition session_get :: "session \<Rightarrow> string \<Rightarrow> exn + (int \<times> body)" where
  "session_get session url =
     (case session url of
        Response status b \<Rightarrow> Inr (status, b)
      | ConnectionFailed \<Rightarrow> Inl ClientError
      | TimedOut \<Rightarrow> Inl TimeoutError)"

text \<open>\<^verbatim>\<open>await response.json()\<close>: raises when the body is not JSON.\<close>

definition response_json :: "body \<Rightarrow> exn + json" where
  "response_json b = (case b of NotJson \<Rightarrow> Inl ContentTypeError | Json data \<Rightarrow> Inr data)"

text \<open>
  \<^verbatim>\<open>data.get(key, None)\<close>: the field, \<^verbatim>\<open>None\<close> when the key is absent; a value that is not a
  dictionary has no \<^verbatim>\<open>get\<close>.
\<close>

definition data_get :: "json \<Rightarrow> string \<Rightarrow> exn + jval" where
  "data_get data key =
     (case data of
        NonObject \<Rightarrow> Inl AttributeError
      | Object dict \<Rightarrow> Inr (case dict key of None \<Rightarrow> JNull | Some v \<Rightarrow> v))"

text \<open>Python's truth value and string rendering of a field value.\<close>

fun truthy :: "jval \<Rightarrow> bool" where
  "truthy JNull = False"
| "truthy (JStr s) = (s \<noteq> [])"

fun py_str :: "jval \<Rightarrow> string" where
  "py_str JNull = ''None''"
| "py_str (JStr s) = s"

text \<open>The body of the \<^verbatim>\<open>try\<close> block of \<^verbatim>\<open>fetch_poster\<close>.\<close>

definition fetch_poster_try :: "session \<Rightarrow> string \<Rightarrow> exn + string" where
  "fetch_poster_try session url =
     (case session_get session url of
        Inl e \<Rightarrow> Inl e
      | Inr (status, b) \<Rightarrow>
          if status = 200 then
            (case response_json b of
               Inl e \<Rightarrow> Inl e
             | Inr data \<Rightarrow>
                 (case data_get data ''poster_path'' of
                    Inl e \<Rightarrow> Inl e
                  | Inr poster_path \<Rightarrow>
                      if truthy poster_path
                      then Inr (image_base @ ''/w500'' @ py_str poster_path)
                      else Inr placeholder))
          else Inr placeholder)"

text \<open>
  \<^verbatim>\<open>fetch_poster\<close>: the \<^verbatim>\<open>try\<close> block with its handler \<^verbatim>\<open>except Exception\<close>, which catches
  every exception of the model and returns the placeholder. The delay before the request
  and the printed messages do not influence the value and are left out.
\<close>

definition fetch_poster :: "session \<Rightarrow> int \<Rightarrow> string \<Rightarrow> exn + string" where
  "fetch_poster session mid api_key =
     (case fetch_poster_try session (request_url mid api_key) of
        Inl e \<Rightarrow> Inr placeholder
      | Inr u \<Rightarrow> Inr u)"

text \<open>
  \<^verbatim>\<open>asyncio.gather(*tasks)\<close>. A task is given by the value it finishes with, and
  \<open>order\<close> lists the task positions in the order in which the tasks finish. Each result is
  stored in the slot of its own task; the first exception to occur is raised to the
  caller. When every task has finished, the slots are returned as a list; while a slot is
  still empty, \<^verbatim>\<open>gather\<close> has not returned (\<open>None\<close>).
\<close>

fun gather_run :: "(exn + 'a) list \<Rightarrow> nat list \<Rightarrow> 'a option list \<Rightarrow> exn + 'a option list" where
  "gather_run tasks [] slots = Inr slots"
| "gather_run tasks (i # order) slots =
     (if i < length tasks then
        (case tasks ! i of
           Inl e \<Rightarrow> Inl e
         | Inr v \<Rightarrow> gather_run tasks order (slots[i := Some v]))
      else gather_run tasks order slots)"

definition gather :: "(exn + 'a) list \<Rightarrow> nat list \<Rightarrow> (exn + 'a list) option" where
  "gather tasks order =
     (case gather_run tasks order (replicate (length tasks) None) of
        Inl e \<Rightarrow> Some (Inl e)
      | Inr slots \<Rightarrow> (case those slots of None \<Rightarrow> None | Some results \<Rightarrow> Some (Inr results)))"

text \<open>
  \<^verbatim>\<open>fetch_posters\<close>: one task per id, in the order of \<open>movie_ids\<close>, joined by \<^verbatim>\<open>gather\<close>.
  Besides the two arguments of the source, the model takes what the environment decides:
  the service behind the client session that the function opens, and the order in which
  the tasks finish.
\<close>

definition fetch_posters :: "session \<Rightarrow> nat list \<Rightarrow> int list \<Rightarrow> string \<Rightarrow> (exn + string list) option" where
  "fetch_posters session order movie_ids api_key =
     (let tasks = map (\<lambda>mid. fetch_poster session mid api_key) movie_ids
      in gather tasks order)"

section \<open>Concrete inputs\<close>

text \<open>
  The three-movie table of the scenario with a matrix of matching shape and one of three
  rows of five scores (no two scores of a row are equal in either); a table of two movies
  with a matrix whose scores are all equal; the tie-break that ranks every index by
  itself; and a service that times out for id 5 and answers id 6 with a poster path.
\<close>

definition catalog3 :: catalog where
  "catalog3 = [\<lparr>title = ''Alpha'', movie_id = 1\<rparr>, \<lparr>title = ''Beta'', movie_id = 2\<rparr>,
               \<lparr>title = ''Gamma'', movie_id = 3\<rparr>]"

definition matrix3 :: matrix where
  "matrix3 = [[1, 9/10, 1/10], [9/10, 1, 1/5], [1/10, 1/5, 1]]"

definition matrix3x5 :: matrix where
  "matrix3x5 = [[1, 9/10, 1/10, 1/2, 2/5], [9/10, 1, 1/5, 3/10, 3/5], [1/10, 1/5, 1, 7/10, 4/5]]"

definition catalog2 :: catalog where
  "catalog2 = [\<lparr>title = ''Alpha'', movie_id = 1\<rparr>, \<lparr>title = ''Beta'', movie_id = 2\<rparr>]"

definition by_index :: tie_break where
  "by_index row i = i"

definition service56 :: session where
  "service56 url =
     (if url = request_url 5 ''key'' then TimedOut
      else if url = request_url 6 ''key''
        then Response 200 (Json (Object (Map.empty(''poster_path'' \<mapsto> JStr ''/x.jpg''))))
      else Response 404 NotJson)"

section \<open>Properties of the recommender\<close>

lemma np_where_eq_absent: "t \<notin> set titles \<Longrightarrow> np_where_eq titles t = []"
  by (auto simp: np_where_eq_def filter_empty_conv)

lemma title_index_found:
  assumes "t \<in> set titles"
  shows "\<exists>idx. item0 (np_where_eq titles t) = Inr idx \<and> idx < length titles \<and> titles ! idx = t"
proof -
  from assms obtain k where k: "k < length titles" "titles ! k = t"
    by (auto simp: in_set_conv_nth)
  then have "k \<in> set (np_where_eq titles t)"
    by (simp add: np_where_eq_def)
  then obtain idx rest where eq: "np_where_eq titles t = idx # rest"
    by (cases "np_where_eq titles t") auto
  then have "idx \<in> set (np_where_eq titles t)"
    by simp
  then have "idx < length titles \<and> titles ! idx = t"
    by (simp add: np_where_eq_def)
  with eq show ?thesis
    by (simp add: item0_def)
qed

lemma filter_only:
  "distinct xs \<Longrightarrow> k \<in> set xs \<Longrightarrow> \<forall>x\<in>set xs. P x = (x = k) \<Longrightarrow> filter P xs = [k]"
proof (induction xs)
  case Nil
  then show ?case
    by simp
next
  case (Cons x xs)
  show ?case
  proof (cases "x = k")
    case True
    with Cons.prems have "\<forall>y\<in>set xs. \<not> P y"
      by auto
    then have "filter P xs = []"
      by (simp add: filter_empty_conv)
    with True Cons.prems show ?thesis
      by simp
  next
    case False
    with Cons show ?thesis
      by auto
  qed
qed

lemma map_position:
  "distinct p \<Longrightarrow> map (\<lambda>i. length (takeWhile (\<lambda>x. x \<noteq> i) p)) p = [0..<length p]"
proof (induction p)
  case Nil
  then show ?case
    by simp
next
  case (Cons x p)
  have "map (\<lambda>i. length (takeWhile (\<lambda>y. y \<noteq> i) (x # p))) p =
      map (\<lambda>i. Suc (length (takeWhile (\<lambda>y. y \<noteq> i) p))) p"
    using Cons.prems by (intro map_cong) auto
  also have "\<dots> = map Suc (map (\<lambda>i. length (takeWhile (\<lambda>y. y \<noteq> i) p)) p)"
    by simp
  also have "\<dots> = map Suc [0..<length p]"
    using Cons by simp
  also have "\<dots> = [Suc 0..<Suc (length p)]"
    by (rule map_Suc_upt)
  finally have rest: "map (\<lambda>i. length (takeWhile (\<lambda>y. y \<noteq> i) (x # p))) p =
      [Suc 0..<Suc (length p)]" .
  have "[0..<Suc (length p)] = 0 # [Suc 0..<Suc (length p)]"
    by (rule upt_conv_Cons) simp
  with rest show ?case
    by (simp del: upt_Suc)
qed

text \<open>
  Every list of the indices of a row that is ordered by ascending score is what
  \<open>argsort\<close> returns for some tie-break: rank each index by its place in that list.
\<close>

lemma argsort_complete:
  assumes perm: "mset p = mset [0..<length row]"
    and srt: "sorted (map (\<lambda>i. row ! i) p)"
  shows "\<exists>tb. argsort tb row = p"
proof -
  define pos where "pos = (\<lambda>i. length (takeWhile (\<lambda>x. x \<noteq> i) p))"
  have dist: "distinct p"
    using perm by (metis distinct_upt mset_eq_imp_distinct_iff)
  have pos_p: "map pos p = [0..<length p]"
    unfolding pos_def using dist by (rule map_position)
  then have "distinct (map pos p)"
    by simp
  then have inj: "inj_on pos (set p)"
    by (simp add: distinct_map)
  have sets: "set p = set [0..<length row]"
    using perm by (rule mset_eq_setD)
  have "sort_key pos [0..<length row] = p"
  proof (rule properties_for_sort_key)
    show "mset p = mset [0..<length row]"
      by (rule perm)
    show "sorted (map pos p)"
      by (simp add: pos_p)
    fix k
    assume k: "k \<in> set p"
    have "filter (\<lambda>x. pos k = pos x) p = [k]"
      using dist k inj by (intro filter_only) (auto dest: inj_onD)
    moreover have "filter (\<lambda>x. pos k = pos x) [0..<length row] = [k]"
    proof (rule filter_only)
      show "distinct [0..<length row]"
        by simp
      show "k \<in> set [0..<length row]"
        using k sets by simp
      show "\<forall>x\<in>set [0..<length row]. (pos k = pos x) = (x = k)"
        using inj k sets by (auto dest: inj_onD)
    qed
    ultimately show "filter (\<lambda>x. pos k = pos x) p = filter (\<lambda>x. pos k = pos x) [0..<length row]"
      by simp
  qed
  then have "argsort (\<lambda>r. pos) row = sort_key (\<lambda>i. row ! i) p"
    by (simp add: argsort_def)
  also have "\<dots> = p"
    using srt by (rule sort_key_id_if_sorted)
  finally show ?thesis
    by blast
qed

lemma set_argsort: "set (argsort tb row) = {..<length row}"
  by (auto simp: argsort_def)

lemma distinct_argsort: "distinct (argsort tb row)"
  by (simp add: argsort_def)

lemma length_argsort: "length (argsort tb row) = length row"
  by (simp add: argsort_def)




lemma length_top_indices: "length (top_indices tb row) = min 20 (length row - 1)"
  by (simp add: top_indices_def length_argsort)

lemma set_top_indices: "set (top_indices tb row) \<subseteq> {..<length row}"
proof -
  have "set (top_indices tb row) \<subseteq> set (rev (argsort tb row))"
    unfolding top_indices_def
    by (meson set_take_subset set_drop_subset subset_trans)
  then show ?thesis
    by (simp add: set_argsort)
qed

lemma distinct_top_indices: "distinct (top_indices tb row)"
  by (simp add: top_indices_def distinct_argsort)


lemma get_recommendations_unfold:
  assumes "item0 (np_where_eq (movie_titles movies) t) = Inr idx"
  shows "get_recommendations tb movies cosine_sim t =
     Inr (if idx < length cosine_sim \<and>
             list_all (\<lambda>i. i < length movies) (top_indices tb (cosine_sim ! idx))
          then map (\<lambda>i. movies ! i) (top_indices tb (cosine_sim ! idx)) else [])"
  using assms
  by (simp add: get_recommendations_def get_recommendations_try_def row_at_def iloc_def)

text \<open>
  Where the scores of a row are pairwise different, only one order sorts it, and the
  tie-break has no say.
\<close>

lemma argsort_no_ties:
  assumes "mset p = mset [0..<length row]"
    and "sorted (map (\<lambda>i. row ! i) p)"
    and "distinct row"
  shows "argsort tb row = p"
proof -
  define q where "q = sort_key (tb row) [0..<length row]"
  have mq: "mset q = mset [0..<length row]"
    by (simp add: q_def)
  then have sq: "set q = set [0..<length row]"
    by (rule mset_eq_setD)
  have dq: "distinct q"
    by (simp add: q_def)
  have sp: "set p = set [0..<length row]"
    using assms(1) by (rule mset_eq_setD)
  have dp: "distinct p"
    using assms(1) by (metis distinct_upt mset_eq_imp_distinct_iff)
  have inj: "inj_on (\<lambda>i. row ! i) {..<length row}"
    using assms(3) by (auto simp: inj_on_def nth_eq_iff_index_eq)
  have "sort_key (\<lambda>i. row ! i) q = p"
  proof (rule properties_for_sort_key)
    show "mset p = mset q"
      using assms(1) mq by simp
    show "sorted (map (\<lambda>i. row ! i) p)"
      by (rule assms(2))
    fix k
    assume k: "k \<in> set p"
    have "filter (\<lambda>x. row ! k = row ! x) p = [k]"
      using dp k inj sp by (intro filter_only) (auto dest: inj_onD)
    moreover have "filter (\<lambda>x. row ! k = row ! x) q = [k]"
      using dq k inj sp sq by (intro filter_only) (auto dest: inj_onD)
    ultimately show "filter (\<lambda>x. row ! k = row ! x) p = filter (\<lambda>x. row ! k = row ! x) q"
      by simp
  qed
  then show ?thesis
    by (simp add: argsort_def q_def)
qed

text \<open>
  In the table of two movies with all scores equal, whichever way the tie is ordered, one
  of the two queries returns the queried movie itself.
\<close>

lemma tie_returns_query:
  "get_recommendations tb catalog2 [[1, 1], [1, 1]] ''Alpha'' = Inr [\<lparr>title = ''Alpha'', movie_id = 1\<rparr>] \<or>
   get_recommendations tb catalog2 [[1, 1], [1, 1]] ''Beta'' = Inr [\<lparr>title = ''Beta'', movie_id = 2\<rparr>]"
  by (cases "tb [1, 1] 0 \<le> tb [1, 1] 1")
    (simp_all add: get_recommendations_def get_recommendations_try_def item0_def np_where_eq_def
      movie_titles_def row_at_def top_indices_def argsort_def iloc_def catalog2_def upt_conv_Cons)

text \<open>
  With two movies of one title, a query for that title returns the other movie of the
  same title, even though each movie's own score is strictly the greatest of its row.
\<close>

lemma same_title_returned:
  "get_recommendations tb [\<lparr>title = ''Alpha'', movie_id = 1\<rparr>, \<lparr>title = ''Alpha'', movie_id = 2\<rparr>]
     [[1, 1/2], [1/2, 1]] ''Alpha'' = Inr [\<lparr>title = ''Alpha'', movie_id = 2\<rparr>]"
proof -
  have "argsort tb [1, 1/2] = [1, 0]"
    by (rule argsort_no_ties) simp_all
  then show ?thesis
    by (simp add: get_recommendations_def get_recommendations_try_def item0_def np_where_eq_def
        movie_titles_def row_at_def top_indices_def iloc_def upt_conv_Cons)
qed

text \<open>
  C4: for a title that is not in the table, \<^verbatim>\<open>get_recommendations\<close> returns the empty result
  and raises nothing: the lookup of the index raises \<^verbatim>\<open>IndexError\<close>, and the handler returns
  the empty table.
\<close>

theorem get_recommendations_absent:
  "t \<notin> set (movie_titles movies) \<Longrightarrow> get_recommendations tb movies cosine_sim t = Inr []"
  by (simp add: get_recommendations_def get_recommendations_try_def np_where_eq_absent item0_def)

theorem get_recommendations_absent_witness:
  "''NonexistentMovie'' \<notin> set (movie_titles catalog3) \<and>
   get_recommendations by_index catalog3 matrix3 ''NonexistentMovie'' = Inr []"
  using get_recommendations_absent
    [where t = "''NonexistentMovie''" and movies = catalog3 and tb = by_index and cosine_sim = matrix3]
  by (simp add: movie_titles_def catalog3_def)

text \<open>
  C5: on the table Alpha, Beta, Gamma (ids 1, 2, 3) with the row \<open>[1.0, 0.9, 0.1]\<close> for Alpha,
  whatever the other rows are and however ties would be ordered, \<^verbatim>\<open>get_recommendations\<close>
  for Alpha returns Beta and then Gamma.
\<close>

theorem get_recommendations_scenario:
  "get_recommendations tb catalog3 ([1, 9/10, 1/10] # other_rows) ''Alpha'' =
     Inr [\<lparr>title = ''Beta'', movie_id = 2\<rparr>, \<lparr>title = ''Gamma'', movie_id = 3\<rparr>]"
proof -
  have "argsort tb [1, 9/10, 1/10] = [2, 1, 0]"
    by (rule argsort_no_ties) simp_all
  then show ?thesis
    by (simp add: get_recommendations_def get_recommendations_try_def item0_def np_where_eq_def
        movie_titles_def row_at_def top_indices_def iloc_def catalog3_def upt_conv_Cons)
qed




text \<open>
  C9, as stated, fails. The table of three movies with a matrix of three rows of five
  scores is a bundle that loads; the ranked positions of the row of Alpha include 3 and
  4, which are no positions of the table, so \<^verbatim>\<open>iloc\<close> raises \<^verbatim>\<open>IndexError\<close> and the result
  is empty, where \<open>min 20 (N - 1)\<close> is 2. No two scores of the row are equal, so the
  tie-break plays no part.
\<close>

theorem get_recommendations_count_counterexample:
  "''Alpha'' \<in> set (movie_titles catalog3) \<and>
   load (Bundle catalog3 matrix3x5) = Inr (catalog3, matrix3x5) \<and>
   top_indices by_index (matrix3x5 ! 0) = [1, 3, 4, 2] \<and>
   get_recommendations by_index catalog3 matrix3x5 ''Alpha'' = Inr [] \<and>
   min 20 (length catalog3 - 1) = (2::nat)"
  by (simp add: get_recommendations_def get_recommendations_try_def item0_def np_where_eq_def
      movie_titles_def row_at_def top_indices_def argsort_def iloc_def catalog3_def matrix3x5_def
      by_index_def upt_conv_Cons)

text \<open>
  C9, amended: when the table has \<open>N\<close> movies and the matrix has \<open>N\<close> rows of \<open>N\<close> scores, a
  query for a title in the table returns exactly \<open>min 20 (N - 1)\<close> rows; each is the row of
  the table at a valid position, taken from positions 1 to 20 of the descending order, and
  so different from the position that comes first in that order. This holds for every
  tie-break.
\<close>

theorem get_recommendations_count:
  assumes "t \<in> set (movie_titles movies)" and "dims_agree movies cosine_sim"
  shows "\<exists>idx df.
      item0 (np_where_eq (movie_titles movies) t) = Inr idx \<and>
      get_recommendations tb movies cosine_sim t = Inr df \<and>
      length df = min 20 (length movies - 1) \<and>
      set df \<subseteq> set movies \<and>
      df = map (\<lambda>i. movies ! i) (take 20 (drop 1 (rev (argsort tb (cosine_sim ! idx))))) \<and>
      list_all (\<lambda>i. i < length movies) (take 20 (drop 1 (rev (argsort tb (cosine_sim ! idx))))) \<and>
      list_all (\<lambda>i. i \<noteq> hd (rev (argsort tb (cosine_sim ! idx))))
        (take 20 (drop 1 (rev (argsort tb (cosine_sim ! idx)))))"
proof -
  from assms(1) obtain idx where idx: "item0 (np_where_eq (movie_titles movies) t) = Inr idx"
      "idx < length (movie_titles movies)"
    using title_index_found by blast
  then have idx_lt: "idx < length movies"
    by (simp add: movie_titles_def)
  define row where "row = cosine_sim ! idx"
  from assms(2) idx_lt have rows: "idx < length cosine_sim" and "row \<in> set cosine_sim"
    by (simp_all add: dims_agree_def row_def)
  with assms(2) have len_row: "length row = length movies"
    by (simp add: dims_agree_def list_all_iff)
  have inb: "list_all (\<lambda>i. i < length movies) (top_indices tb row)"
    using set_top_indices [of tb row] len_row by (auto simp: list_all_iff)
  define df where "df = map (\<lambda>i. movies ! i) (top_indices tb row)"
  have res: "get_recommendations tb movies cosine_sim t = Inr df"
    using get_recommendations_unfold [OF idx(1), of tb cosine_sim] rows inb
    by (simp add: df_def row_def)
  have len: "length df = min 20 (length movies - 1)"
    by (simp add: df_def length_top_indices len_row)
  have sub: "set df \<subseteq> set movies"
    using inb by (auto simp: df_def list_all_iff)
  have dist: "list_all (\<lambda>i. i \<noteq> hd (rev (argsort tb row))) (top_indices tb row)"
  proof (cases "rev (argsort tb row)")
    case Nil
    then show ?thesis
      by (simp add: top_indices_def)
  next
    case (Cons x ps)
    have "distinct (x # ps)"
      using distinct_argsort [of tb row] Cons by (metis distinct_rev)
    then have "x \<notin> set (take 20 ps)"
      using set_take_subset [of 20 ps] by auto
    with Cons show ?thesis
      by (auto simp: top_indices_def list_all_iff)
  qed
  show ?thesis
    using idx(1) res len sub inb dist
    by (intro exI [of _ idx] exI [of _ df]) (simp add: df_def row_def top_indices_def)
qed

theorem get_recommendations_count_witness:
  "''Beta'' \<in> set (movie_titles catalog3) \<and> dims_agree catalog3 matrix3 \<and>
   get_recommendations by_index catalog3 matrix3 ''Beta'' =
     Inr [\<lparr>title = ''Alpha'', movie_id = 1\<rparr>, \<lparr>title = ''Gamma'', movie_id = 3\<rparr>] \<and>
   length [\<lparr>title = ''Alpha'', movie_id = 1\<rparr>, \<lparr>title = ''Gamma'', movie_id = 3\<rparr>] =
     min 20 (length catalog3 - 1)"
  using get_recommendations_count
    [where t = "''Beta''" and movies = catalog3 and cosine_sim = matrix3 and tb = by_index]
  by (simp add: get_recommendations_def get_recommendations_try_def item0_def np_where_eq_def
      movie_titles_def row_at_def top_indices_def argsort_def iloc_def catalog3_def matrix3_def
      by_index_def dims_agree_def upt_conv_Cons)

text \<open>
  C7: two successive calls for the same title, the second made in the state the first one
  left (same table, same matrix, the store as updated by the first call), return the
  same result. This holds from any state of the store.
\<close>

theorem get_recommendations_cached_twice:
  "fst (get_recommendations_cached tb (snd (get_recommendations_cached tb st t)) t) =
     fst (get_recommendations_cached tb st t)"
  by (simp add: get_recommendations_cached_def split: option.splits sum.splits)

section \<open>Properties of the catalog store\<close>

text \<open>
  C6, as stated, fails: a bundle whose table has one movie and whose matrix has no row
  loads successfully, although the dimensions disagree.
\<close>

theorem load_dims_counterexample:
  "\<not> dims_agree [\<lparr>title = ''Alpha'', movie_id = 1\<rparr>] [] \<and>
   load (Bundle [\<lparr>title = ''Alpha'', movie_id = 1\<rparr>] []) = Inr ([\<lparr>title = ''Alpha'', movie_id = 1\<rparr>], []) \<and>
   startup (Bundle [\<lparr>title = ''Alpha'', movie_id = 1\<rparr>] []) =
     Inr \<lparr>g_movies = [\<lparr>title = ''Alpha'', movie_id = 1\<rparr>], g_cosine_sim = [], g_cache = Map.empty\<rparr>"
  by (simp add: dims_agree_def startup_def)

text \<open>
  C6, amended: loading fails with an exception when the file is missing, does not
  unpickle or does not unpack into two parts, and in no other case; a bundle that decodes
  is returned as it is, whatever its dimensions; and a call of the recommender leaves the
  table and the matrix of the process state as they were.
\<close>

theorem load_result:
  "(load a = Inr (movies, cosine_sim)) = (a = Bundle movies cosine_sim) \<and>
   load Missing = Inl FileNotFoundError \<and>
   load Corrupt = Inl UnpicklingError \<and>
   load NotAPair = Inl ValueError \<and>
   g_movies (snd (get_recommendations_cached tb st t)) = g_movies st \<and>
   g_cosine_sim (snd (get_recommendations_cached tb st t)) = g_cosine_sim st"
  by (cases a) (auto simp: get_recommendations_cached_def split: option.splits sum.splits)

section \<open>Properties of the poster fetcher\<close>

lemma url_ne: "image_base @ ''/w500'' @ p \<noteq> placeholder"
  by (simp add: image_base_def placeholder_def)

lemma fetch_poster_found:
  assumes "session (request_url mid api_key) = Response 200 (Json (Object d))"
    and "d ''poster_path'' = Some (JStr p)" and "p \<noteq> []"
  shows "fetch_poster session mid api_key = Inr (image_base @ ''/w500'' @ p)"
  using assms
  by (simp add: fetch_poster_def fetch_poster_try_def session_get_def response_json_def data_get_def)

lemma fetch_poster_fallback:
  assumes "\<not> (\<exists>d p. session (request_url mid api_key) = Response 200 (Json (Object d)) \<and>
          d ''poster_path'' = Some (JStr p) \<and> p \<noteq> [])"
  shows "fetch_poster session mid api_key = Inr placeholder"
proof (cases "session (request_url mid api_key)")
  case (Response status b)
  show ?thesis
  proof (cases "status = 200")
    case True
    show ?thesis
    proof (cases b)
      case NotJson
      with Response True show ?thesis
        by (simp add: fetch_poster_def fetch_poster_try_def session_get_def response_json_def)
    next
      case (Json data)
      show ?thesis
      proof (cases data)
        case NonObject
        with Response True Json show ?thesis
          by (simp add: fetch_poster_def fetch_poster_try_def session_get_def response_json_def data_get_def)
      next
        case (Object d)
        with Response True Json assms have "\<not> (\<exists>p. d ''poster_path'' = Some (JStr p) \<and> p \<noteq> [])"
          by simp
        then have "\<not> truthy (case d ''poster_path'' of None \<Rightarrow> JNull | Some v \<Rightarrow> v)"
          by (cases "d ''poster_path''") (auto elim: truthy.elims)
        with Response True Json Object show ?thesis
          by (simp add: fetch_poster_def fetch_poster_try_def session_get_def response_json_def data_get_def)
      qed
    qed
  next
    case False
    with Response show ?thesis
      by (simp add: fetch_poster_def fetch_poster_try_def session_get_def)
  qed
next
  case ConnectionFailed
  then show ?thesis
    by (simp add: fetch_poster_def fetch_poster_try_def session_get_def)
next
  case TimedOut
  then show ?thesis
    by (simp add: fetch_poster_def fetch_poster_try_def session_get_def)
qed

text \<open>
  C3: a single fetch returns the image URL \<open>image_base/w500poster_path\<close> exactly when the
  response has status 200 and its JSON object holds a non-empty string \<^verbatim>\<open>poster_path\<close>; in
  every other case it returns the placeholder; and it always returns a value, never an
  exception.
\<close>

theorem fetch_poster_resolves:
  "((fetch_poster session mid api_key = Inr (image_base @ ''/w500'' @ p)) =
     (\<exists>d. session (request_url mid api_key) = Response 200 (Json (Object d)) \<and>
          d ''poster_path'' = Some (JStr p) \<and> p \<noteq> [])) \<and>
   ((\<nexists>d q. session (request_url mid api_key) = Response 200 (Json (Object d)) \<and>
          d ''poster_path'' = Some (JStr q) \<and> q \<noteq> []) \<longrightarrow>
      fetch_poster session mid api_key = Inr placeholder) \<and>
   (\<exists>u. fetch_poster session mid api_key = Inr u)"
proof (intro conjI impI)
  show "(fetch_poster session mid api_key = Inr (image_base @ ''/w500'' @ p)) =
     (\<exists>d. session (request_url mid api_key) = Response 200 (Json (Object d)) \<and>
          d ''poster_path'' = Some (JStr p) \<and> p \<noteq> [])" (is "?L = ?R")
  proof
    assume l: ?L
    have ne: "image_base @ ''/w500'' @ p \<noteq> placeholder"
      by (rule url_ne)
    from l ne have "fetch_poster session mid api_key \<noteq> Inr placeholder"
      by simp
    then obtain d q where dq: "session (request_url mid api_key) = Response 200 (Json (Object d))"
        "d ''poster_path'' = Some (JStr q)" "q \<noteq> []"
      using fetch_poster_fallback [of session mid api_key] by blast
    from fetch_poster_found [of session mid api_key d q] dq l have "q = p"
      by simp
    with dq show ?R
      by blast
  next
    assume ?R
    then obtain d where "session (request_url mid api_key) = Response 200 (Json (Object d))"
        "d ''poster_path'' = Some (JStr p)" "p \<noteq> []"
      by blast
    then show ?L
      by (rule fetch_poster_found)
  qed
next
  assume "\<nexists>d q. session (request_url mid api_key) = Response 200 (Json (Object d)) \<and>
          d ''poster_path'' = Some (JStr q) \<and> q \<noteq> []"
  then show "fetch_poster session mid api_key = Inr placeholder"
    by (rule fetch_poster_fallback)
next
  show "\<exists>u. fetch_poster session mid api_key = Inr u"
    by (simp add: fetch_poster_def split: sum.splits)
qed

lemma request_url_5: "request_url 5 ''key'' = ''https://api.themoviedb.org/3/movie/5?api_key=key''"
  by (simp add: request_url_def str_int_def str_nat.simps digit_char_def)

lemma request_url_6: "request_url 6 ''key'' = ''https://api.themoviedb.org/3/movie/6?api_key=key''"
  by (simp add: request_url_def str_int_def str_nat.simps digit_char_def)

theorem fetch_poster_resolves_witness:
  "fetch_poster service56 6 ''key'' = Inr ''https://image.tmdb.org/t/p/w500/x.jpg'' \<and>
   fetch_poster service56 5 ''key'' = Inr ''https://via.placeholder.com/150''"
  using fetch_poster_resolves [of service56 6 "''key''" "''/x.jpg''"]
    fetch_poster_resolves [of service56 5 "''key''" "''/x.jpg''"]
  by (simp add: service56_def request_url_5 request_url_6 image_base_def placeholder_def)

text \<open>
  C10: every value a single fetch returns is the literal
  \<^verbatim>\<open>https://image.tmdb.org/t/p/w500\<close> followed by the response's \<^verbatim>\<open>poster_path\<close>, or the
  literal \<^verbatim>\<open>https://via.placeholder.com/150\<close>; a missing, null or empty \<^verbatim>\<open>poster_path\<close>, a
  status other than 200, and every exception of the request all give that same literal.
\<close>

theorem fetch_poster_values:
  "((\<exists>p. fetch_poster session mid api_key = Inr (''https://image.tmdb.org/t/p/w500'' @ p) \<and>
        (\<exists>d. session (request_url mid api_key) = Response 200 (Json (Object d)) \<and>
             d ''poster_path'' = Some (JStr p))) \<or>
    fetch_poster session mid api_key = Inr ''https://via.placeholder.com/150'') \<and>
   (session (request_url mid api_key) = Response 200 (Json (Object d)) \<and>
      d ''poster_path'' \<in> {None, Some JNull, Some (JStr '''')} \<longrightarrow>
      fetch_poster session mid api_key = Inr ''https://via.placeholder.com/150'') \<and>
   (session (request_url mid api_key) = Response status b \<and> status \<noteq> 200 \<longrightarrow>
      fetch_poster session mid api_key = Inr ''https://via.placeholder.com/150'') \<and>
   (session (request_url mid api_key) \<in>
        {ConnectionFailed, TimedOut, Response 200 NotJson, Response 200 (Json NonObject)} \<longrightarrow>
      fetch_poster session mid api_key = Inr ''https://via.placeholder.com/150'')"
proof (intro conjI impI)
  show "(\<exists>p. fetch_poster session mid api_key = Inr (''https://image.tmdb.org/t/p/w500'' @ p) \<and>
        (\<exists>d. session (request_url mid api_key) = Response 200 (Json (Object d)) \<and>
             d ''poster_path'' = Some (JStr p))) \<or>
    fetch_poster session mid api_key = Inr ''https://via.placeholder.com/150''"
  proof (cases "\<exists>d p. session (request_url mid api_key) = Response 200 (Json (Object d)) \<and>
          d ''poster_path'' = Some (JStr p) \<and> p \<noteq> []")
    case True
    then obtain d p where dp: "session (request_url mid api_key) = Response 200 (Json (Object d))"
        "d ''poster_path'' = Some (JStr p)" "p \<noteq> []"
      by blast
    then have "fetch_poster session mid api_key = Inr (''https://image.tmdb.org/t/p/w500'' @ p)"
      using fetch_poster_found [of session mid api_key d p] by (simp add: image_base_def)
    with dp show ?thesis
      by blast
  next
    case False
    then have "fetch_poster session mid api_key = Inr placeholder"
      by (rule fetch_poster_fallback)
    then show ?thesis
      by (simp add: placeholder_def)
  qed
next
  assume "session (request_url mid api_key) = Response 200 (Json (Object d)) \<and>
      d ''poster_path'' \<in> {None, Some JNull, Some (JStr '''')}"
  then have "fetch_poster session mid api_key = Inr placeholder"
    by (intro fetch_poster_fallback) auto
  then show "fetch_poster session mid api_key = Inr ''https://via.placeholder.com/150''"
    by (simp add: placeholder_def)
next
  assume "session (request_url mid api_key) = Response status b \<and> status \<noteq> 200"
  then have "fetch_poster session mid api_key = Inr placeholder"
    by (intro fetch_poster_fallback) auto
  then show "fetch_poster session mid api_key = Inr ''https://via.placeholder.com/150''"
    by (simp add: placeholder_def)
next
  assume "session (request_url mid api_key) \<in>
        {ConnectionFailed, TimedOut, Response 200 NotJson, Response 200 (Json NonObject)}"
  then have "fetch_poster session mid api_key = Inr placeholder"
    by (intro fetch_poster_fallback) auto
  then show "fetch_poster session mid api_key = Inr ''https://via.placeholder.com/150''"
    by (simp add: placeholder_def)
qed

theorem fetch_poster_values_witness:
  "fetch_poster (\<lambda>url. Response 200 (Json (Object (Map.empty(''poster_path'' \<mapsto> JStr ''''))))) 7 ''key'' =
     Inr ''https://via.placeholder.com/150'' \<and>
   fetch_poster (\<lambda>url. Response 404 NotJson) 7 ''key'' = Inr ''https://via.placeholder.com/150'' \<and>
   fetch_poster (\<lambda>url. TimedOut) 7 ''key'' = Inr ''https://via.placeholder.com/150''"
  using
    fetch_poster_values [of "\<lambda>url. Response 200 (Json (Object (Map.empty(''poster_path'' \<mapsto> JStr ''''))))"
      7 "''key''" "Map.empty(''poster_path'' \<mapsto> JStr '''')" 404 NotJson]
    fetch_poster_values [of "\<lambda>url. Response 404 NotJson" 7 "''key''" Map.empty 404 NotJson]
    fetch_poster_values [of "\<lambda>url. TimedOut" 7 "''key''" Map.empty 404 NotJson]
  by simp

lemma those_map_Some: "those (map Some xs) = Some xs"
  by (induction xs) simp_all

lemma gather_run_all_returned:
  "length slots = length vs \<Longrightarrow>
   gather_run (map Inr vs) order slots =
     Inr (map (\<lambda>i. if i \<in> set order then Some (vs ! i) else slots ! i) [0..<length vs])"
proof (induction order arbitrary: slots)
  case Nil
  have "map (\<lambda>i. slots ! i) [0..<length slots] = slots"
    by (rule map_nth)
  with Nil show ?case
    by simp
next
  case (Cons i order)
  show ?case
  proof (cases "i < length vs")
    case True
    have "gather_run (map Inr vs) (i # order) slots =
        gather_run (map Inr vs) order (slots[i := Some (vs ! i)])"
      using True by simp
    also have "\<dots> = Inr (map (\<lambda>j. if j \<in> set order then Some (vs ! j)
        else slots[i := Some (vs ! i)] ! j) [0..<length vs])"
      using Cons.prems by (intro Cons.IH) simp
    also have "map (\<lambda>j. if j \<in> set order then Some (vs ! j)
        else slots[i := Some (vs ! i)] ! j) [0..<length vs] =
        map (\<lambda>j. if j \<in> set (i # order) then Some (vs ! j) else slots ! j) [0..<length vs]"
      using Cons.prems by (intro map_cong) (auto simp: nth_list_update)
    finally show ?thesis .
  next
    case False
    have "gather_run (map Inr vs) (i # order) slots = gather_run (map Inr vs) order slots"
      using False by simp
    also have "\<dots> = Inr (map (\<lambda>j. if j \<in> set order then Some (vs ! j) else slots ! j) [0..<length vs])"
      using Cons.prems by (rule Cons.IH)
    also have "map (\<lambda>j. if j \<in> set order then Some (vs ! j) else slots ! j) [0..<length vs] =
        map (\<lambda>j. if j \<in> set (i # order) then Some (vs ! j) else slots ! j) [0..<length vs]"
      using False by (intro map_cong) auto
    finally show ?thesis .
  qed
qed

lemma gather_all_returned:
  assumes "set order = {..<length vs}"
  shows "gather (map Inr vs) order = Some (Inr vs)"
proof -
  have "gather_run (map Inr vs) order (replicate (length vs) None) =
      Inr (map (\<lambda>i. if i \<in> set order then Some (vs ! i) else replicate (length vs) None ! i)
        [0..<length vs])"
    by (rule gather_run_all_returned) simp
  also have "map (\<lambda>i. if i \<in> set order then Some (vs ! i) else replicate (length vs) None ! i)
        [0..<length vs] = map (\<lambda>i. Some (vs ! i)) [0..<length vs]"
    using assms by (intro map_cong) auto
  also have "\<dots> = map Some (map (\<lambda>i. vs ! i) [0..<length vs])"
    by simp
  also have "\<dots> = map Some vs"
    by (simp only: map_nth)
  finally show ?thesis
    by (simp add: gather_def those_map_Some)
qed

lemma fetch_poster_returns: "\<exists>u. fetch_poster session mid api_key = Inr u"
  by (simp add: fetch_poster_def split: sum.splits)

lemma fetch_poster_projr:
  "fetch_poster session mid api_key = Inr (projr (fetch_poster session mid api_key))"
  using fetch_poster_returns [of session mid api_key] by auto

text \<open>
  C2: for every list of ids, every service (any mix of answers and failures) and every
  order in which the tasks finish, \<^verbatim>\<open>fetch_posters\<close> returns a list and no exception; the
  list is as long as the list of ids, and its \<open>i\<close>-th element is the result of the fetch
  for the \<open>i\<close>-th id.
\<close>

theorem fetch_posters_aligned:
  assumes "mset order = mset [0..<length movie_ids]"
  shows "\<exists>posters. fetch_posters session order movie_ids api_key = Some (Inr posters) \<and>
           length posters = length movie_ids \<and>
           (\<forall>i<length movie_ids. fetch_poster session (movie_ids ! i) api_key = Inr (posters ! i))"
proof -
  define posters where "posters = map (\<lambda>mid. projr (fetch_poster session mid api_key)) movie_ids"
  have tasks: "map (\<lambda>mid. fetch_poster session mid api_key) movie_ids = map Inr posters"
    unfolding posters_def using fetch_poster_projr by simp
  from assms have "set order = set [0..<length movie_ids]"
    by (rule mset_eq_setD)
  then have "set order = {..<length posters}"
    by (auto simp: posters_def)
  then have "gather (map Inr posters) order = Some (Inr posters)"
    by (rule gather_all_returned)
  with tasks have "fetch_posters session order movie_ids api_key = Some (Inr posters)"
    by (simp add: fetch_posters_def)
  moreover have "length posters = length movie_ids"
    by (simp add: posters_def)
  moreover have "\<forall>i<length movie_ids. fetch_poster session (movie_ids ! i) api_key = Inr (posters ! i)"
    using fetch_poster_projr by (simp add: posters_def)
  ultimately show ?thesis
    by blast
qed

theorem fetch_posters_aligned_witness:
  "mset [1, 0] = mset [0..<length [5, 6 :: int]] \<and>
   fetch_posters service56 [1, 0] [5, 6] ''key'' =
     Some (Inr [''https://via.placeholder.com/150'', ''https://image.tmdb.org/t/p/w500/x.jpg''])"
  using fetch_posters_aligned [of "[1, 0]" "[5, 6]" service56 "''key''"]
  by (simp add: fetch_posters_def gather_def fetch_poster_def fetch_poster_try_def service56_def
      request_url_5 request_url_6 session_get_def response_json_def data_get_def image_base_def
      placeholder_def upt_conv_Cons)

end
